theory Spec2Isabelle
  imports Main "HOL-Library.Multiset"
begin

section \<open>FarmRide: the record store and the request handlers of app.py\<close>

text \<open>
  The application is a Flask program over three SQLAlchemy tables. Each handler of
  \<^verbatim>\<open>app.py\<close> becomes a function from the store (and the request) to the new store
  and the response. A response \<^verbatim>\<open>jsonify(body), code\<close> is a pair: the body is
  \<open>Inl msg\<close> for \<^verbatim>\<open>{'error': msg}\<close> and \<open>Inr p\<close> for a success body.

  Modelling boundary. A request body is a JSON object whose present fields carry a
  non-null value of the JSON type of the column they feed (a string for a string column,
  a boolean for a flag, a number for an id), so a body is a record of optional fields:
  \<open>None\<close> is an absent key. Timestamps are natural numbers of microseconds; the date
  of a timestamp is its day number and its time the microseconds within the day.
\<close>

subsection \<open>Time and ISO strings\<close>

type_synonym datetime = nat

definition day_us :: nat where
  "day_us = 86400000000"

definition date_of :: "datetime \<Rightarrow> nat" where
  "date_of dt = dt div day_us"

definition time_of :: "datetime \<Rightarrow> nat" where
  "time_of dt = dt mod day_us"

text \<open>
  A string handed to \<^verbatim>\<open>datetime.fromisoformat\<close> is represented by what the parser
  makes of it: \<open>Iso dt\<close> is a string the parser accepts, with value \<open>dt\<close>;
  \<open>NotIso s\<close> is the string \<open>s\<close>, which the parser rejects with a ValueError.
\<close>

datatype iso_str = Iso datetime | NotIso string

fun fromisoformat :: "iso_str \<Rightarrow> string + datetime" where
  "fromisoformat (Iso dt) = Inr dt"
| "fromisoformat (NotIso s) = Inl (''Invalid isoformat string: '' @ [CHR 0x27] @ s @ [CHR 0x27])"

text \<open>Python's truth value of a string: the empty string is false.\<close>

fun truthy_iso :: "iso_str \<Rightarrow> bool" where
  "truthy_iso (Iso dt) = True"
| "truthy_iso (NotIso s) = (s \<noteq> [])"

subsection \<open>The tables\<close>

record user =
  u_user_id :: nat
  u_username :: string
  u_phone_no :: string
  u_password_hash :: "string \<times> string"
  u_full_name :: string
  u_village :: string
  u_is_admin :: bool
  u_created_at :: datetime

record driver =
  d_driver_id :: nat
  d_driver_name :: string
  d_phone_no :: string
  d_vehicle_name :: string
  d_vehicle_type :: string
  d_vehicle_id :: string
  d_vehicle_photo :: string
  d_driver_photo :: string
  d_is_available :: bool
  d_created_at :: datetime

record ride =
  r_ride_id :: nat
  r_driver_id :: nat
  r_user_id :: "nat option"
  r_driver_name :: string
  r_vehicle_type :: string
  r_vehicle_id :: string
  r_date :: nat
  r_time :: nat
  r_start_location :: string
  r_destination :: string
  r_ride_status :: string
  r_cargo_type :: "string option"
  r_notes :: "string option"
  r_created_at :: datetime

text \<open>The database: each table is the list of its rows, in insertion order.\<close>

record store =
  users :: "user list"
  drivers :: "driver list"
  rides :: "ride list"

definition empty_store :: store where
  "empty_store = \<lparr>users = [], drivers = [], rides = []\<rparr>"

text \<open>
  \<^verbatim>\<open>Model.query.get(id)\<close> is the row with that primary key, \<^verbatim>\<open>filter_by(...).first()\<close>
  the first row that matches. A new row gets the key one above the largest in the table
  (SQLite's rowid). Committing a changed row replaces the row of that key.
\<close>

definition query_get :: "('a \<Rightarrow> nat) \<Rightarrow> 'a list \<Rightarrow> nat \<Rightarrow> 'a option" where
  "query_get pk rows i = find (\<lambda>x. pk x = i) rows"

definition next_id :: "('a \<Rightarrow> nat) \<Rightarrow> 'a list \<Rightarrow> nat" where
  "next_id pk rows = Suc (fold max (map pk rows) 0)"

fun commit_row :: "('a \<Rightarrow> nat) \<Rightarrow> 'a \<Rightarrow> 'a list \<Rightarrow> 'a list" where
  "commit_row pk y [] = []"
| "commit_row pk y (x # xs) = (if pk x = pk y then y # xs else x # commit_row pk y xs)"

subsection \<open>Responses\<close>

record user_dict =
  ud_user_id :: nat
  ud_username :: string
  ud_phone_no :: string
  ud_full_name :: string
  ud_village :: string
  ud_is_admin :: bool
  ud_created_at :: datetime

definition user_to_dict :: "user \<Rightarrow> user_dict" where
  "user_to_dict u = \<lparr>ud_user_id = u_user_id u, ud_username = u_username u,
     ud_phone_no = u_phone_no u, ud_full_name = u_full_name u, ud_village = u_village u,
     ud_is_admin = u_is_admin u, ud_created_at = u_created_at u\<rparr>"

record dashboard_stats =
  total_drivers :: nat
  available_drivers :: nat
  total_rides :: nat
  available_rides :: nat
  booked_rides :: nat
  completed_rides :: nat

datatype payload =
    Message string
  | UserCreated string user_dict
  | LoggedIn string string user_dict
  | DriverBody string driver
  | RideBody string ride
  | RideList "ride list" nat
  | AdminDashboard dashboard_stats "ride list"

type_synonym response = "(string + payload) \<times> nat"

subsection \<open>The environment of a request\<close>

text \<open>
  What a handler takes from outside the program: the clock, the salt drawn by
  \<^verbatim>\<open>generate_password_hash\<close>, the key derivation of werkzeug and the JWT codec
  (with the server's secret). They are parameters: every theorem holds for all of them.
\<close>

datatype jwt_result = Decoded "nat option" | ExpiredSignatureError | InvalidTokenError

record env =
  utcnow :: datetime
  gen_salt :: string
  kdf :: "string \<Rightarrow> string \<Rightarrow> string"
  jwt_encode :: "nat \<times> string \<times> bool \<times> datetime \<Rightarrow> string"
  jwt_decode :: "string \<Rightarrow> jwt_result"

record 'a request =
  authorization :: "string option"
  get_json :: 'a

text \<open>
  werkzeug stores the salt beside the digest and checks a password by deriving the
  digest again with the stored salt.
\<close>

definition generate_password_hash :: "env \<Rightarrow> string \<Rightarrow> string \<times> string" where
  "generate_password_hash e password = (gen_salt e, kdf e (gen_salt e) password)"



subsection \<open>The authentication decorators\<close>

text \<open>\<^verbatim>\<open>str.split(' ')\<close>: the pieces between single spaces, empty pieces kept.\<close>

fun split_on :: "char \<Rightarrow> string \<Rightarrow> string list" where
  "split_on c [] = [[]]"
| "split_on c (x # xs) =
     (if x = c then [] # split_on c xs
      else (case split_on c xs of
              [] \<Rightarrow> [[x]]
            | w # ws \<Rightarrow> (x # w) # ws))"

definition token_required ::
  "env \<Rightarrow> store \<Rightarrow> string option \<Rightarrow> (user \<Rightarrow> store \<times> response) \<Rightarrow> store \<times> response" where
  "token_required e s auth f =
     (case (case auth of
              None \<Rightarrow> Inr None
            | Some auth_header \<Rightarrow>
                (case split_on CHR '' '' auth_header of
                   _ # t # _ \<Rightarrow> Inr (Some t)
                 | _ \<Rightarrow> Inl (Inl ''Invalid token format'', 401))) of
        Inl resp \<Rightarrow> (s, resp)
      | Inr None \<Rightarrow> (s, (Inl ''Token is missing'', 401))
      | Inr (Some token) \<Rightarrow>
          (if token = [] then (s, (Inl ''Token is missing'', 401))
           else (case jwt_decode e token of
                   ExpiredSignatureError \<Rightarrow> (s, (Inl ''Token has expired'', 401))
                 | InvalidTokenError \<Rightarrow> (s, (Inl ''Invalid token'', 401))
                 | Decoded None \<Rightarrow> (s, (Inl ''Internal Server Error'', 500))
                 | Decoded (Some uid) \<Rightarrow>
                     (case query_get u_user_id (users s) uid of
                        None \<Rightarrow> (s, (Inl ''User not found'', 401))
                      | Some current_user \<Rightarrow> f current_user))))"

definition admin_required ::
  "env \<Rightarrow> store \<Rightarrow> string option \<Rightarrow> (user \<Rightarrow> store \<times> response) \<Rightarrow> store \<times> response" where
  "admin_required e s auth f =
     token_required e s auth
       (\<lambda>current_user.
          if \<not> u_is_admin current_user then (s, (Inl ''Admin access required'', 403))
          else f current_user)"

subsection \<open>Registration and login\<close>

record register_json =
  rj_username :: "string option"
  rj_phone_no :: "string option"
  rj_password :: "string option"
  rj_full_name :: "string option"
  rj_village :: "string option"
  rj_is_admin :: "bool option"

text \<open>\<^verbatim>\<open>data.get(key, default)\<close> and the guarded assignment \<^verbatim>\<open>if key in data: x = data[key]\<close>.\<close>

definition get_default :: "'a option \<Rightarrow> 'a \<Rightarrow> 'a" where
  "get_default field dflt = (case field of None \<Rightarrow> dflt | Some v \<Rightarrow> v)"

text \<open>The loop over \<^verbatim>\<open>required_fields\<close>: the first required key that is absent.\<close>

fun first_missing :: "(string \<times> bool) list \<Rightarrow> string option" where
  "first_missing [] = None"
| "first_missing ((field, present) # fs) =
     (if \<not> present then Some field else first_missing fs)"

definition missing_field :: "string \<Rightarrow> string" where
  "missing_field field = ''Missing required field: '' @ field"

definition new_user :: "env \<Rightarrow> store \<Rightarrow> register_json \<Rightarrow> user" where
  "new_user e s data =
     \<lparr>u_user_id = next_id u_user_id (users s),
      u_username = the (rj_username data),
      u_phone_no = the (rj_phone_no data),
      u_password_hash = generate_password_hash e (the (rj_password data)),
      u_full_name = the (rj_full_name data),
      u_village = get_default (rj_village data) [],
      u_is_admin = get_default (rj_is_admin data) False,
      u_created_at = utcnow e\<rparr>"

definition register :: "env \<Rightarrow> store \<Rightarrow> register_json request \<Rightarrow> store \<times> response" where
  "register e s req =
     (let data = get_json req in
      case first_missing [(''username'', rj_username data \<noteq> None),
                          (''phone_no'', rj_phone_no data \<noteq> None),
                          (''password'', rj_password data \<noteq> None),
                          (''full_name'', rj_full_name data \<noteq> None)] of
        Some field \<Rightarrow> (s, (Inl (missing_field field), 400))
      | None \<Rightarrow>
          if find (\<lambda>u. Some (u_username u) = rj_username data) (users s) \<noteq> None
          then (s, (Inl ''Username already exists'', 409))
          else if find (\<lambda>u. Some (u_phone_no u) = rj_phone_no data) (users s) \<noteq> None
          then (s, (Inl ''Phone number already registered'', 409))
          else
            let user = new_user e s data
            in (s\<lparr>users := users s @ [user]\<rparr>,
                (Inr (UserCreated ''User registered successfully'' (user_to_dict user)), 201)))"




subsection \<open>Drivers\<close>

record driver_json =
  dj_driver_name :: "string option"
  dj_phone_no :: "string option"
  dj_vehicle_name :: "string option"
  dj_vehicle_type :: "string option"
  dj_vehicle_id :: "string option"
  dj_vehicle_photo :: "string option"
  dj_driver_photo :: "string option"
  dj_is_available :: "bool option"

definition new_driver :: "env \<Rightarrow> store \<Rightarrow> driver_json \<Rightarrow> driver" where
  "new_driver e s data =
     \<lparr>d_driver_id = next_id d_driver_id (drivers s),
      d_driver_name = the (dj_driver_name data),
      d_phone_no = the (dj_phone_no data),
      d_vehicle_name = the (dj_vehicle_name data),
      d_vehicle_type = the (dj_vehicle_type data),
      d_vehicle_id = the (dj_vehicle_id data),
      d_vehicle_photo = get_default (dj_vehicle_photo data) ''default-vehicle.jpg'',
      d_driver_photo = get_default (dj_driver_photo data) ''default-driver.jpg'',
      d_is_available = get_default (dj_is_available data) True,
      d_created_at = utcnow e\<rparr>"

definition create_driver :: "env \<Rightarrow> store \<Rightarrow> user \<Rightarrow> driver_json \<Rightarrow> store \<times> response" where
  "create_driver e s current_user data =
     (case first_missing [(''driver_name'', dj_driver_name data \<noteq> None),
                          (''phone_no'', dj_phone_no data \<noteq> None),
                          (''vehicle_name'', dj_vehicle_name data \<noteq> None),
                          (''vehicle_type'', dj_vehicle_type data \<noteq> None),
                          (''vehicle_id'', dj_vehicle_id data \<noteq> None)] of
        Some field \<Rightarrow> (s, (Inl (missing_field field), 400))
      | None \<Rightarrow>
          if find (\<lambda>d. Some (d_vehicle_id d) = dj_vehicle_id data) (drivers s) \<noteq> None
          then (s, (Inl ''Vehicle ID already exists'', 409))
          else
            let driver = new_driver e s data
            in (s\<lparr>drivers := drivers s @ [driver]\<rparr>,
                (Inr (DriverBody ''Driver created successfully'' driver), 201)))"

definition apply_driver_json :: "driver_json \<Rightarrow> driver \<Rightarrow> driver" where
  "apply_driver_json data d =
     d\<lparr>d_driver_name := get_default (dj_driver_name data) (d_driver_name d),
       d_phone_no := get_default (dj_phone_no data) (d_phone_no d),
       d_vehicle_name := get_default (dj_vehicle_name data) (d_vehicle_name d),
       d_vehicle_type := get_default (dj_vehicle_type data) (d_vehicle_type d),
       d_vehicle_photo := get_default (dj_vehicle_photo data) (d_vehicle_photo d),
       d_driver_photo := get_default (dj_driver_photo data) (d_driver_photo d),
       d_is_available := get_default (dj_is_available data) (d_is_available d)\<rparr>"

definition update_driver :: "store \<Rightarrow> user \<Rightarrow> nat \<Rightarrow> driver_json \<Rightarrow> store \<times> response" where
  "update_driver s current_user driver_id data =
     (case query_get d_driver_id (drivers s) driver_id of
        None \<Rightarrow> (s, (Inl ''Driver not found'', 404))
      | Some d \<Rightarrow>
          let d' = apply_driver_json data d
          in (s\<lparr>drivers := commit_row d_driver_id d' (drivers s)\<rparr>,
              (Inr (DriverBody ''Driver updated successfully'' d'), 200)))"

text \<open>
  Deleting a driver deletes its rides with it: the relationship \<^verbatim>\<open>Driver.rides\<close> is
  declared with \<^verbatim>\<open>cascade='all, delete-orphan'\<close>.
\<close>

definition delete_driver :: "store \<Rightarrow> user \<Rightarrow> nat \<Rightarrow> store \<times> response" where
  "delete_driver s current_user driver_id =
     (case query_get d_driver_id (drivers s) driver_id of
        None \<Rightarrow> (s, (Inl ''Driver not found'', 404))
      | Some d \<Rightarrow>
          (s\<lparr>drivers := filter (\<lambda>x. d_driver_id x \<noteq> d_driver_id d) (drivers s),
             rides := filter (\<lambda>r. r_driver_id r \<noteq> d_driver_id d) (rides s)\<rparr>,
           (Inr (Message ''Driver deleted successfully''), 200)))"

subsection \<open>Rides\<close>

record ride_json =
  qj_driver_id :: "nat option"
  qj_date :: "iso_str option"
  qj_time :: "iso_str option"
  qj_start_location :: "string option"
  qj_destination :: "string option"
  qj_ride_status :: "string option"
  qj_cargo_type :: "string option"
  qj_notes :: "string option"

definition new_ride :: "env \<Rightarrow> store \<Rightarrow> driver \<Rightarrow> datetime \<Rightarrow> datetime \<Rightarrow> ride_json \<Rightarrow> ride" where
  "new_ride e s d dt tm data =
     \<lparr>r_ride_id = next_id r_ride_id (rides s),
      r_driver_id = the (qj_driver_id data),
      r_user_id = None,
      r_driver_name = d_driver_name d,
      r_vehicle_type = d_vehicle_type d,
      r_vehicle_id = d_vehicle_id d,
      r_date = date_of dt,
      r_time = time_of tm,
      r_start_location = the (qj_start_location data),
      r_destination = the (qj_destination data),
      r_ride_status = get_default (qj_ride_status data) ''available'',
      r_cargo_type = qj_cargo_type data,
      r_notes = qj_notes data,
      r_created_at = utcnow e\<rparr>"

definition create_ride :: "env \<Rightarrow> store \<Rightarrow> user \<Rightarrow> ride_json \<Rightarrow> store \<times> response" where
  "create_ride e s current_user data =
     (case first_missing [(''driver_id'', qj_driver_id data \<noteq> None),
                          (''date'', qj_date data \<noteq> None),
                          (''time'', qj_time data \<noteq> None),
                          (''start_location'', qj_start_location data \<noteq> None),
                          (''destination'', qj_destination data \<noteq> None)] of
        Some field \<Rightarrow> (s, (Inl (missing_field field), 400))
      | None \<Rightarrow>
          (case query_get d_driver_id (drivers s) (the (qj_driver_id data)) of
             None \<Rightarrow> (s, (Inl ''Driver not found'', 404))
           | Some d \<Rightarrow>
               (case fromisoformat (the (qj_date data)) of
                  Inl msg \<Rightarrow> (s, (Inl msg, 500))
                | Inr dt \<Rightarrow>
                    (case fromisoformat (the (qj_time data)) of
                       Inl msg \<Rightarrow> (s, (Inl msg, 500))
                     | Inr tm \<Rightarrow>
                         let ride = new_ride e s d dt tm data
                         in (s\<lparr>rides := rides s @ [ride]\<rparr>,
                             (Inr (RideBody ''Ride created successfully'' ride), 201))))))"

text \<open>
  The field assignments of \<^verbatim>\<open>update_ride\<close>, in the order of the source: the date and the
  time are parsed first, and a string that does not parse raises before anything else is
  assigned. The result is the error message or the changed row.
\<close>

definition apply_ride_json :: "user \<Rightarrow> ride_json \<Rightarrow> ride \<Rightarrow> string + ride" where
  "apply_ride_json current_user data r =
     (case (case qj_date data of
              None \<Rightarrow> Inr r
            | Some ds \<Rightarrow> (case fromisoformat ds of
                             Inl msg \<Rightarrow> Inl msg
                           | Inr dt \<Rightarrow> Inr (r\<lparr>r_date := date_of dt\<rparr>))) of
        Inl msg \<Rightarrow> Inl msg
      | Inr r1 \<Rightarrow>
          (case (case qj_time data of
                   None \<Rightarrow> Inr r1
                 | Some ts \<Rightarrow> (case fromisoformat ts of
                                  Inl msg \<Rightarrow> Inl msg
                                | Inr tm \<Rightarrow> Inr (r1\<lparr>r_time := time_of tm\<rparr>))) of
             Inl msg \<Rightarrow> Inl msg
           | Inr r2 \<Rightarrow>
               let r3 = r2\<lparr>r_start_location := get_default (qj_start_location data) (r_start_location r2),
                           r_destination := get_default (qj_destination data) (r_destination r2)\<rparr>;
                   r4 = (case qj_ride_status data of
                           None \<Rightarrow> r3
                         | Some st \<Rightarrow>
                             if st = ''booked''
                             then r3\<lparr>r_ride_status := st, r_user_id := Some (u_user_id current_user)\<rparr>
                             else r3\<lparr>r_ride_status := st\<rparr>);
                   r5 = (case qj_cargo_type data of
                           None \<Rightarrow> r4
                         | Some c \<Rightarrow> r4\<lparr>r_cargo_type := Some c\<rparr>);
                   r6 = (case qj_notes data of
                           None \<Rightarrow> r5
                         | Some n \<Rightarrow> r5\<lparr>r_notes := Some n\<rparr>)
               in Inr r6))"

definition update_ride :: "store \<Rightarrow> user \<Rightarrow> nat \<Rightarrow> ride_json \<Rightarrow> store \<times> response" where
  "update_ride s current_user ride_id data =
     (case query_get r_ride_id (rides s) ride_id of
        None \<Rightarrow> (s, (Inl ''Ride not found'', 404))
      | Some r \<Rightarrow>
          (case apply_ride_json current_user data r of
             Inl msg \<Rightarrow> (s, (Inl msg, 500))
           | Inr r' \<Rightarrow>
               (s\<lparr>rides := commit_row r_ride_id r' (rides s)\<rparr>,
                (Inr (RideBody ''Ride updated successfully'' r'), 200))))"

definition delete_ride :: "store \<Rightarrow> user \<Rightarrow> nat \<Rightarrow> store \<times> response" where
  "delete_ride s current_user ride_id =
     (case query_get r_ride_id (rides s) ride_id of
        None \<Rightarrow> (s, (Inl ''Ride not found'', 404))
      | Some r \<Rightarrow>
          (s\<lparr>rides := filter (\<lambda>x. r_ride_id x \<noteq> r_ride_id r) (rides s)\<rparr>,
           (Inr (Message ''Ride deleted successfully''), 200)))"

definition book_ride :: "store \<Rightarrow> user \<Rightarrow> nat \<Rightarrow> store \<times> response" where
  "book_ride s current_user ride_id =
     (case query_get r_ride_id (rides s) ride_id of
        None \<Rightarrow> (s, (Inl ''Ride not found'', 404))
      | Some r \<Rightarrow>
          if r_ride_status r \<noteq> ''available''
          then (s, (Inl ''Ride is not available for booking'', 400))
          else
            let r' = r\<lparr>r_ride_status := ''booked'', r_user_id := Some (u_user_id current_user)\<rparr>
            in (s\<lparr>rides := commit_row r_ride_id r' (rides s)\<rparr>,
                (Inr (RideBody ''Ride booked successfully'' r'), 200)))"

subsection \<open>Listing rides\<close>

text \<open>
  \<^verbatim>\<open>order_by\<close>: the rows sorted by insertion; \<open>before a b\<close> says that \<open>a\<close> may stand
  before \<open>b\<close> in the result.
\<close>

fun insort_by :: "('a \<Rightarrow> 'a \<Rightarrow> bool) \<Rightarrow> 'a \<Rightarrow> 'a list \<Rightarrow> 'a list" where
  "insort_by before x [] = [x]"
| "insort_by before x (y # ys) =
     (if before x y then x # y # ys else y # insort_by before x ys)"

definition order_by :: "('a \<Rightarrow> 'a \<Rightarrow> bool) \<Rightarrow> 'a list \<Rightarrow> 'a list" where
  "order_by before rows = foldr (insort_by before) rows []"

text \<open>\<^verbatim>\<open>Ride.date.desc(), Ride.time.desc()\<close> and \<^verbatim>\<open>Ride.created_at.desc()\<close>.\<close>

definition date_time_desc :: "ride \<Rightarrow> ride \<Rightarrow> bool" where
  "date_time_desc a b =
     (r_date b < r_date a \<or> (r_date a = r_date b \<and> r_time b \<le> r_time a))"

definition created_at_desc :: "ride \<Rightarrow> ride \<Rightarrow> bool" where
  "created_at_desc a b = (r_created_at b \<le> r_created_at a)"

text \<open>The query string: \<^verbatim>\<open>request.args.get(key)\<close> is \<open>None\<close> for an absent parameter.\<close>

record rides_args =
  arg_status :: "string option"
  arg_vehicle_type :: "string option"
  arg_date :: "iso_str option"

definition get_rides :: "store \<Rightarrow> rides_args \<Rightarrow> store \<times> response" where
  "get_rides s args =
     (let query0 = rides s;
          query1 = (case arg_status args of
                      None \<Rightarrow> query0
                    | Some st \<Rightarrow>
                        if st \<noteq> [] then filter (\<lambda>r. r_ride_status r = st) query0 else query0);
          query2 = (case arg_vehicle_type args of
                      None \<Rightarrow> query1
                    | Some vt \<Rightarrow>
                        if vt \<noteq> [] then filter (\<lambda>r. r_vehicle_type r = vt) query1 else query1)
      in case (case arg_date args of
                 None \<Rightarrow> Inr query2
               | Some ds \<Rightarrow>
                   if truthy_iso ds
                   then (case fromisoformat ds of
                           Inl msg \<Rightarrow> Inl msg
                         | Inr dt \<Rightarrow> Inr (filter (\<lambda>r. r_date r = date_of dt) query2))
                   else Inr query2) of
           Inl msg \<Rightarrow> (s, (Inl msg, 500))
         | Inr query3 \<Rightarrow>
             let result = order_by date_time_desc query3
             in (s, (Inr (RideList result (length result)), 200)))"

subsection \<open>The admin dashboard\<close>

definition admin_dashboard :: "store \<Rightarrow> user \<Rightarrow> store \<times> response" where
  "admin_dashboard s current_user =
     (let stats = \<lparr>total_drivers = length (drivers s),
            available_drivers = length (filter (\<lambda>d. d_is_available d = True) (drivers s)),
            total_rides = length (rides s),
            available_rides = length (filter (\<lambda>r. r_ride_status r = ''available'') (rides s)),
            booked_rides = length (filter (\<lambda>r. r_ride_status r = ''booked'') (rides s)),
            completed_rides = length (filter (\<lambda>r. r_ride_status r = ''completed'') (rides s))\<rparr>;
          recent_rides = take 10 (order_by created_at_desc (rides s))
      in (s, (Inr (AdminDashboard stats recent_rides), 200)))"

subsection \<open>The routes\<close>

text \<open>
  A route is its handler behind its decorator: \<^verbatim>\<open>@token_required\<close> for a ride update
  and a booking, \<^verbatim>\<open>@admin_required\<close> for the management of drivers and rides, none for
  registration. A run of the service is a list of calls, each with its environment.
\<close>

datatype api_call =
    PostRegister "register_json request"
  | PostDriver "driver_json request"
  | PutDriver nat "driver_json request"
  | DeleteDriver nat "unit request"
  | PostRide "ride_json request"
  | PutRide nat "ride_json request"
  | DeleteRide nat "unit request"
  | PostBook nat "unit request"

fun route :: "env \<Rightarrow> store \<Rightarrow> api_call \<Rightarrow> store \<times> response" where
  "route e s (PostRegister req) = register e s req"
| "route e s (PostDriver req) =
     admin_required e s (authorization req) (\<lambda>u. create_driver e s u (get_json req))"
| "route e s (PutDriver driver_id req) =
     admin_required e s (authorization req) (\<lambda>u. update_driver s u driver_id (get_json req))"
| "route e s (DeleteDriver driver_id req) =
     admin_required e s (authorization req) (\<lambda>u. delete_driver s u driver_id)"
| "route e s (PostRide req) =
     admin_required e s (authorization req) (\<lambda>u. create_ride e s u (get_json req))"
| "route e s (PutRide ride_id req) =
     token_required e s (authorization req) (\<lambda>u. update_ride s u ride_id (get_json req))"
| "route e s (DeleteRide ride_id req) =
     admin_required e s (authorization req) (\<lambda>u. delete_ride s u ride_id)"
| "route e s (PostBook ride_id req) =
     token_required e s (authorization req) (\<lambda>u. book_ride s u ride_id)"

fun run :: "store \<Rightarrow> (env \<times> api_call) list \<Rightarrow> store" where
  "run s [] = s"
| "run s ((e, c) # cs) = run (fst (route e s c)) cs"

subsection \<open>The invariants of a ride\<close>

definition valid_status :: "string \<Rightarrow> bool" where
  "valid_status st = (st = ''available'' \<or> st = ''booked'' \<or> st = ''completed'')"

definition ride_inv :: "ride \<Rightarrow> bool" where
  "ride_inv r =
     (valid_status (r_ride_status r) \<and>
      (r_user_id r = None \<or> r_ride_status r = ''booked'' \<or> r_ride_status r = ''completed''))"

definition store_inv :: "store \<Rightarrow> bool" where
  "store_inv s = list_all ride_inv (rides s)"

subsection \<open>Sample data\<close>

text \<open>
  A small store in the shape of the one \<^verbatim>\<open>init_db\<close> builds: the admin, the farmer, the
  first driver and the first ride, which is available. The sample environment has a toy
  key derivation and a toy token codec; they stand for werkzeug and PyJWT only where a
  theorem is evaluated on the sample.
\<close>

definition sample_env :: env where
  "sample_env = \<lparr>utcnow = 1000, gen_salt = ''s1'',
     kdf = (\<lambda>salt password. salt @ password),
     jwt_encode = (\<lambda>(uid, name, adm, exp). name),
     jwt_decode = (\<lambda>token. if token = ''admin'' then Decoded (Some 1)
                             else if token = ''ramesh'' then Decoded (Some 2)
                             else InvalidTokenError)\<rparr>"

definition sample_admin :: user where
  "sample_admin = \<lparr>u_user_id = 1, u_username = ''admin'', u_phone_no = ''9876543210'',
     u_password_hash = (''s0'', ''s0admin123''), u_full_name = ''Admin User'',
     u_village = ''Nashik'', u_is_admin = True, u_created_at = 0\<rparr>"

definition sample_farmer :: user where
  "sample_farmer = \<lparr>u_user_id = 2, u_username = ''ramesh'', u_phone_no = ''9876543211'',
     u_password_hash = (''s0'', ''s0farmer123''), u_full_name = ''Ramesh Patil'',
     u_village = ''Trimbakeshwar'', u_is_admin = False, u_created_at = 0\<rparr>"

definition sample_driver :: driver where
  "sample_driver = \<lparr>d_driver_id = 1, d_driver_name = ''Suresh Jadhav'',
     d_phone_no = ''9876543220'', d_vehicle_name = ''John Deere 5050D'',
     d_vehicle_type = ''tractor'', d_vehicle_id = ''MH15-TR-1234'',
     d_vehicle_photo = ''default-vehicle.jpg'', d_driver_photo = ''default-driver.jpg'',
     d_is_available = True, d_created_at = 0\<rparr>"

definition sample_ride :: ride where
  "sample_ride = \<lparr>r_ride_id = 1, r_driver_id = 1, r_user_id = None,
     r_driver_name = ''Suresh Jadhav'', r_vehicle_type = ''tractor'',
     r_vehicle_id = ''MH15-TR-1234'', r_date = 1, r_time = 8,
     r_start_location = ''Nashik Market'', r_destination = ''Trimbakeshwar'',
     r_ride_status = ''available'', r_cargo_type = Some ''manure'', r_notes = None,
     r_created_at = 0\<rparr>"

definition sample_store :: store where
  "sample_store = \<lparr>users = [sample_admin, sample_farmer], drivers = [sample_driver],
     rides = [sample_ride]\<rparr>"

definition sample_register :: "register_json request" where
  "sample_register = \<lparr>authorization = None,
     get_json = \<lparr>rj_username = Some ''sita'', rj_phone_no = Some ''9876543212'',
       rj_password = Some ''sita123'', rj_full_name = Some ''Sita Pawar'',
       rj_village = None, rj_is_admin = Some True\<rparr>\<rparr>"


definition sample_driver_json :: driver_json where
  "sample_driver_json = \<lparr>dj_driver_name = Some ''Suresh J.'', dj_phone_no = None,
     dj_vehicle_name = None, dj_vehicle_type = None, dj_vehicle_id = Some ''MH15-XX-0000'',
     dj_vehicle_photo = None, dj_driver_photo = None, dj_is_available = Some False\<rparr>"

section \<open>Properties\<close>

subsection \<open>Rows and keys\<close>

lemma query_get_pk: "query_get pk rows i = Some x \<Longrightarrow> pk x = i"
  by (auto simp: query_get_def find_Some_iff)

lemma query_get_mem: "query_get pk rows i = Some x \<Longrightarrow> x \<in> set rows"
  by (auto simp: query_get_def find_Some_iff)

lemma query_get_commit_row_same:
  "query_get pk rows (pk y) \<noteq> None \<Longrightarrow> query_get pk (commit_row pk y rows) (pk y) = Some y"
  by (induction rows) (auto simp: query_get_def)

lemma query_get_commit_row_other:
  "j \<noteq> pk y \<Longrightarrow> query_get pk (commit_row pk y rows) j = query_get pk rows j"
  by (induction rows) (auto simp: query_get_def)


lemma map_pk_commit_row: "map pk (commit_row pk y rows) = map pk rows"
  by (induction rows) auto



subsection \<open>Booking\<close>



subsection \<open>Login failures\<close>



subsection \<open>Registration\<close>

lemma register_created:
  assumes "register e s req = (s', (Inr p, code))"
  shows "code = 201 \<and> s' = s\<lparr>users := users s @ [new_user e s (get_json req)]\<rparr> \<and>
         rj_username (get_json req) \<noteq> None \<and> rj_phone_no (get_json req) \<noteq> None \<and>
         rj_password (get_json req) \<noteq> None \<and> rj_full_name (get_json req) \<noteq> None"
  using assms by (auto simp: register_def Let_def split: option.splits if_splits)

lemma register_ok:
  assumes "rj_username data \<noteq> None" "rj_phone_no data \<noteq> None"
    "rj_password data \<noteq> None" "rj_full_name data \<noteq> None"
    and "find (\<lambda>u. Some (u_username u) = rj_username data) (users s) = None"
    and "find (\<lambda>u. Some (u_phone_no u) = rj_phone_no data) (users s) = None"
    and "get_json req = data"
  shows "register e s req = (s\<lparr>users := users s @ [new_user e s data]\<rparr>,
      (Inr (UserCreated ''User registered successfully''
                     (user_to_dict (new_user e s data))), 201))"
  using assms by (simp add: register_def Let_def)



lemma sample_register_fresh:
  "find (\<lambda>u. Some (u_username u) = rj_username (get_json sample_register)) (users sample_store) = None"
  "find (\<lambda>u. Some (u_phone_no u) = rj_phone_no (get_json sample_register)) (users sample_store) = None"
  by (simp_all add: sample_register_def sample_store_def sample_admin_def sample_farmer_def)

lemma sample_register_ok:
  "register sample_env sample_store sample_register =
     (sample_store\<lparr>users := users sample_store @
         [new_user sample_env sample_store (get_json sample_register)]\<rparr>,
      (Inr (UserCreated ''User registered successfully''
         (user_to_dict (new_user sample_env sample_store (get_json sample_register)))), 201))"
  by (rule register_ok [OF _ _ _ _ sample_register_fresh]) (simp_all add: sample_register_def)

text \<open>
  C9. \<open>register\<close> has no decorator: its result does not depend on the Authorization
  header. Whenever it creates a user (status 201), that user is the one row appended to
  the users, and its admin flag is the \<open>is_admin\<close> field of the body, \<open>False\<close> when
  the field is absent. So there is a request without any Authorization header, with
  \<open>is_admin\<close> true, whose registration on the empty store creates an admin.
\<close>

theorem register_admin_flag:
  "register e s (req\<lparr>authorization := h\<rparr>) = register e s req \<and>
   (\<forall>s' p code. register e s req = (s', (Inr p, code)) \<longrightarrow>
      code = 201 \<and>
      (\<exists>u. users s' = users s @ [u] \<and>
           u_is_admin u = (case rj_is_admin (get_json req) of None \<Rightarrow> False | Some b \<Rightarrow> b))) \<and>
   (\<exists>req' s' p u. authorization req' = None \<and> rj_is_admin (get_json req') = Some True \<and>
      register e empty_store req' = (s', (Inr p, 201)) \<and> u \<in> set (users s') \<and> u_is_admin u)"
proof -
  have A: "register e s (req\<lparr>authorization := h\<rparr>) = register e s req"
    by (simp add: register_def)
  have B: "code = 201 \<and>
      (\<exists>u. users s' = users s @ [u] \<and>
           u_is_admin u = (case rj_is_admin (get_json req) of None \<Rightarrow> False | Some b \<Rightarrow> b))"
    if r: "register e s req = (s', (Inr p, code))" for s' p code
  proof -
    from register_created [OF r]
    have c: "code = 201" and s': "s' = s\<lparr>users := users s @ [new_user e s (get_json req)]\<rparr>"
      by simp_all
    have "u_is_admin (new_user e s (get_json req)) =
        (case rj_is_admin (get_json req) of None \<Rightarrow> False | Some b \<Rightarrow> b)"
      by (simp add: new_user_def get_default_def)
    with c s' show ?thesis by simp
  qed
  define data where "data = \<lparr>rj_username = Some ''root'', rj_phone_no = Some ''1'',
     rj_password = Some ''pw'', rj_full_name = Some ''Root'', rj_village = None,
     rj_is_admin = Some True\<rparr>"
  define req' where "req' = \<lparr>authorization = None, get_json = data\<rparr>"
  define nu where "nu = new_user e empty_store data"
  have 1: "register e empty_store req' =
     (empty_store\<lparr>users := users empty_store @ [nu]\<rparr>,
      (Inr (UserCreated ''User registered successfully'' (user_to_dict nu)), 201))"
    unfolding nu_def
    by (rule register_ok) (simp_all add: data_def req'_def empty_store_def)
  have 2: "u_is_admin nu"
    by (simp add: nu_def new_user_def get_default_def data_def)
  have 3: "authorization req' = None" "rj_is_admin (get_json req') = Some True"
    by (simp_all add: req'_def data_def)
  have 4: "nu \<in> set (users (empty_store\<lparr>users := users empty_store @ [nu]\<rparr>))"
    by simp
  have C: "\<exists>req' s' p u. authorization req' = None \<and> rj_is_admin (get_json req') = Some True \<and>
      register e empty_store req' = (s', (Inr p, 201)) \<and> u \<in> set (users s') \<and> u_is_admin u"
    using 1 2 3 4 by blast
  from A B C show ?thesis by blast
qed

theorem register_admin_flag_witness:
  "snd (snd (register sample_env sample_store sample_register)) = 201 \<and>
   authorization sample_register = None \<and>
   (\<exists>u. users (fst (register sample_env sample_store sample_register)) =
          users sample_store @ [u] \<and> u_is_admin u)"
proof -
  have adm: "rj_is_admin (get_json sample_register) = Some True"
    by (simp add: sample_register_def)
  have "\<exists>u. users (fst (register sample_env sample_store sample_register)) =
          users sample_store @ [u] \<and> u_is_admin u"
    using register_admin_flag [where e = sample_env and s = sample_store and req = sample_register
        and h = None]
      sample_register_ok adm by auto
  then show ?thesis
    by (simp add: sample_register_ok) (simp add: sample_register_def)
qed



subsection \<open>Drivers\<close>

lemma query_get_filter_neq:
  "query_get pk (filter (\<lambda>x. pk x \<noteq> i) rows) j = (if j = i then None else query_get pk rows j)"
  by (induction rows) (auto simp: query_get_def)

lemma map_commit_row_same:
  "query_get pk rows (pk y) = Some d \<Longrightarrow> f y = f d \<Longrightarrow> map f (commit_row pk y rows) = map f rows"
  by (induction rows) (auto simp: query_get_def split: if_splits)

lemma sample_driver_found: "query_get d_driver_id (drivers sample_store) 1 = Some sample_driver"
  by (simp add: query_get_def sample_store_def sample_driver_def)

text \<open>
  C7. When the id resolves to a driver, \<open>delete_driver\<close> answers 200 and the new store
  has the users unchanged, the drivers without the rows of that id, in their order, and
  the rides without the rides of that driver, in their order: the id resolves to no
  driver any more, every other id resolves as before, no ride of the driver is left,
  every ride of another driver is kept, the number of rides drops by the number N of
  rides the driver owned, and with N = 0 the rides are unchanged.
\<close>

theorem delete_driver_cascade:
  "query_get d_driver_id (drivers s) i = Some d \<longrightarrow>
     (let s' = fst (delete_driver s u i) in
      snd (delete_driver s u i) = (Inr (Message ''Driver deleted successfully''), 200) \<and>
      users s' = users s \<and>
      drivers s' = filter (\<lambda>x. d_driver_id x \<noteq> i) (drivers s) \<and>
      rides s' = filter (\<lambda>r. r_driver_id r \<noteq> i) (rides s) \<and>
      query_get d_driver_id (drivers s') i = None \<and>
      (\<forall>j. j \<noteq> i \<longrightarrow> query_get d_driver_id (drivers s') j = query_get d_driver_id (drivers s) j) \<and>
      (\<forall>r \<in> set (rides s'). r_driver_id r \<noteq> i) \<and>
      (\<forall>r \<in> set (rides s). r_driver_id r \<noteq> i \<longrightarrow> r \<in> set (rides s')) \<and>
      length (rides s') + length (filter (\<lambda>r. r_driver_id r = i) (rides s)) = length (rides s) \<and>
      (filter (\<lambda>r. r_driver_id r = i) (rides s) = [] \<longrightarrow> rides s' = rides s))"
proof
  assume g: "query_get d_driver_id (drivers s) i = Some d"
  have pk: "d_driver_id d = i" using query_get_pk [OF g] .
  define s' where "s' = s\<lparr>drivers := filter (\<lambda>x. d_driver_id x \<noteq> i) (drivers s),
             rides := filter (\<lambda>r. r_driver_id r \<noteq> i) (rides s)\<rparr>"
  have del: "delete_driver s u i = (s', (Inr (Message ''Driver deleted successfully''), 200))"
    using g pk by (simp add: delete_driver_def s'_def)
  have 1: "users s' = users s"
    "drivers s' = filter (\<lambda>x. d_driver_id x \<noteq> i) (drivers s)"
    "rides s' = filter (\<lambda>r. r_driver_id r \<noteq> i) (rides s)"
    by (simp_all add: s'_def)
  have 2: "query_get d_driver_id (drivers s') i = None"
    "\<forall>j. j \<noteq> i \<longrightarrow> query_get d_driver_id (drivers s') j = query_get d_driver_id (drivers s) j"
    by (simp_all add: 1 query_get_filter_neq)
  have 3: "\<forall>r \<in> set (rides s'). r_driver_id r \<noteq> i"
    "\<forall>r \<in> set (rides s). r_driver_id r \<noteq> i \<longrightarrow> r \<in> set (rides s')"
    by (simp_all add: 1)
  have 4: "length (rides s') + length (filter (\<lambda>r. r_driver_id r = i) (rides s)) = length (rides s)"
    using sum_length_filter_compl [of "\<lambda>r. r_driver_id r = i" "rides s"] by (simp add: 1)
  have 5: "filter (\<lambda>r. r_driver_id r = i) (rides s) = [] \<longrightarrow> rides s' = rides s"
    by (simp add: 1 filter_empty_conv filter_id_conv)
  show "let s' = fst (delete_driver s u i) in
      snd (delete_driver s u i) = (Inr (Message ''Driver deleted successfully''), 200) \<and>
      users s' = users s \<and>
      drivers s' = filter (\<lambda>x. d_driver_id x \<noteq> i) (drivers s) \<and>
      rides s' = filter (\<lambda>r. r_driver_id r \<noteq> i) (rides s) \<and>
      query_get d_driver_id (drivers s') i = None \<and>
      (\<forall>j. j \<noteq> i \<longrightarrow> query_get d_driver_id (drivers s') j = query_get d_driver_id (drivers s) j) \<and>
      (\<forall>r \<in> set (rides s'). r_driver_id r \<noteq> i) \<and>
      (\<forall>r \<in> set (rides s). r_driver_id r \<noteq> i \<longrightarrow> r \<in> set (rides s')) \<and>
      length (rides s') + length (filter (\<lambda>r. r_driver_id r = i) (rides s)) = length (rides s) \<and>
      (filter (\<lambda>r. r_driver_id r = i) (rides s) = [] \<longrightarrow> rides s' = rides s)"
    unfolding Let_def del fst_conv snd_conv using 1 2 3 4 5 by blast
qed

theorem delete_driver_cascade_witness:
  "snd (delete_driver sample_store sample_admin 1) =
     (Inr (Message ''Driver deleted successfully''), 200) \<and>
   drivers (fst (delete_driver sample_store sample_admin 1)) = [] \<and>
   rides (fst (delete_driver sample_store sample_admin 1)) = [] \<and>
   users (fst (delete_driver sample_store sample_admin 1)) = [sample_admin, sample_farmer]"
proof -
  have d: "drivers sample_store = [sample_driver]" "rides sample_store = [sample_ride]"
    "users sample_store = [sample_admin, sample_farmer]"
    by (simp_all add: sample_store_def)
  have k: "d_driver_id sample_driver = 1" "r_driver_id sample_ride = 1"
    by (simp_all add: sample_driver_def sample_ride_def)
  show ?thesis
    using delete_driver_cascade [where s = sample_store and i = 1 and d = sample_driver
        and u = sample_admin] sample_driver_found
    by (simp add: Let_def d k)
qed

text \<open>
  C10. When the id resolves to a driver, \<open>update_driver\<close> answers 200 with a row that
  differs from the old one in at most the seven fields driver_name, phone_no,
  vehicle_name, vehicle_type, vehicle_photo, driver_photo and is_available: driver_id,
  vehicle_id and created_at are those of the old row, also when the body carries a
  \<open>vehicle_id\<close> key. Users, rides and every other driver are unchanged, the columns of
  driver ids, vehicle ids and creation times are the same lists as before, and so
  vehicle ids that were distinct stay distinct.
\<close>

theorem update_driver_frame:
  "query_get d_driver_id (drivers s) i = Some d \<longrightarrow>
     (\<exists>d'. update_driver s u i data =
             (s\<lparr>drivers := commit_row d_driver_id d' (drivers s)\<rparr>,
              (Inr (DriverBody ''Driver updated successfully'' d'), 200)) \<and>
           d_driver_id d' = d_driver_id d \<and> d_vehicle_id d' = d_vehicle_id d \<and>
           d_created_at d' = d_created_at d \<and>
           d' = d\<lparr>d_driver_name := d_driver_name d', d_phone_no := d_phone_no d',
                  d_vehicle_name := d_vehicle_name d', d_vehicle_type := d_vehicle_type d',
                  d_vehicle_photo := d_vehicle_photo d', d_driver_photo := d_driver_photo d',
                  d_is_available := d_is_available d'\<rparr> \<and>
           query_get d_driver_id (drivers (fst (update_driver s u i data))) i = Some d') \<and>
     users (fst (update_driver s u i data)) = users s \<and>
     rides (fst (update_driver s u i data)) = rides s \<and>
     (\<forall>j. j \<noteq> i \<longrightarrow> query_get d_driver_id (drivers (fst (update_driver s u i data))) j =
                      query_get d_driver_id (drivers s) j) \<and>
     map d_driver_id (drivers (fst (update_driver s u i data))) = map d_driver_id (drivers s) \<and>
     map d_vehicle_id (drivers (fst (update_driver s u i data))) = map d_vehicle_id (drivers s) \<and>
     map d_created_at (drivers (fst (update_driver s u i data))) = map d_created_at (drivers s) \<and>
     (distinct (map d_vehicle_id (drivers s)) \<longrightarrow>
        distinct (map d_vehicle_id (drivers (fst (update_driver s u i data)))))"
proof
  assume g: "query_get d_driver_id (drivers s) i = Some d"
  have pk: "d_driver_id d = i" using query_get_pk [OF g] .
  define d' where "d' = apply_driver_json data d"
  have same: "d_driver_id d' = d_driver_id d" "d_vehicle_id d' = d_vehicle_id d"
    "d_created_at d' = d_created_at d"
    by (simp_all add: d'_def apply_driver_json_def)
  have only: "d' = d\<lparr>d_driver_name := d_driver_name d', d_phone_no := d_phone_no d',
                  d_vehicle_name := d_vehicle_name d', d_vehicle_type := d_vehicle_type d',
                  d_vehicle_photo := d_vehicle_photo d', d_driver_photo := d_driver_photo d',
                  d_is_available := d_is_available d'\<rparr>"
    by (simp add: d'_def apply_driver_json_def)
  define s' where "s' = s\<lparr>drivers := commit_row d_driver_id d' (drivers s)\<rparr>"
  have upd: "update_driver s u i data =
      (s\<lparr>drivers := commit_row d_driver_id d' (drivers s)\<rparr>,
       (Inr (DriverBody ''Driver updated successfully'' d'), 200))"
    using g by (simp add: update_driver_def Let_def d'_def)
  have fs: "fst (update_driver s u i data) = s'"
    by (simp add: upd s'_def)
  have g': "query_get d_driver_id (drivers s) (d_driver_id d') = Some d"
    using g pk same by simp
  have q: "query_get d_driver_id (drivers s') i = Some d'"
    using query_get_commit_row_same [of d_driver_id "drivers s" d'] g' same pk
    by (simp add: s'_def)
  have o: "\<forall>j. j \<noteq> i \<longrightarrow> query_get d_driver_id (drivers s') j = query_get d_driver_id (drivers s) j"
    using query_get_commit_row_other [of _ d_driver_id d' "drivers s"] same pk
    by (simp add: s'_def)
  have m: "map d_driver_id (drivers s') = map d_driver_id (drivers s)"
    "map d_vehicle_id (drivers s') = map d_vehicle_id (drivers s)"
    "map d_created_at (drivers s') = map d_created_at (drivers s)"
    using map_commit_row_same [OF g'] same by (simp_all add: s'_def)
  have dist: "distinct (map d_vehicle_id (drivers s)) \<longrightarrow> distinct (map d_vehicle_id (drivers s'))"
    by (simp add: m)
  have f: "users s' = users s" "rides s' = rides s" by (simp_all add: s'_def)
  show "(\<exists>d'. update_driver s u i data =
             (s\<lparr>drivers := commit_row d_driver_id d' (drivers s)\<rparr>,
              (Inr (DriverBody ''Driver updated successfully'' d'), 200)) \<and>
           d_driver_id d' = d_driver_id d \<and> d_vehicle_id d' = d_vehicle_id d \<and>
           d_created_at d' = d_created_at d \<and>
           d' = d\<lparr>d_driver_name := d_driver_name d', d_phone_no := d_phone_no d',
                  d_vehicle_name := d_vehicle_name d', d_vehicle_type := d_vehicle_type d',
                  d_vehicle_photo := d_vehicle_photo d', d_driver_photo := d_driver_photo d',
                  d_is_available := d_is_available d'\<rparr> \<and>
           query_get d_driver_id (drivers (fst (update_driver s u i data))) i = Some d') \<and>
     users (fst (update_driver s u i data)) = users s \<and>
     rides (fst (update_driver s u i data)) = rides s \<and>
     (\<forall>j. j \<noteq> i \<longrightarrow> query_get d_driver_id (drivers (fst (update_driver s u i data))) j =
                      query_get d_driver_id (drivers s) j) \<and>
     map d_driver_id (drivers (fst (update_driver s u i data))) = map d_driver_id (drivers s) \<and>
     map d_vehicle_id (drivers (fst (update_driver s u i data))) = map d_vehicle_id (drivers s) \<and>
     map d_created_at (drivers (fst (update_driver s u i data))) = map d_created_at (drivers s) \<and>
     (distinct (map d_vehicle_id (drivers s)) \<longrightarrow>
        distinct (map d_vehicle_id (drivers (fst (update_driver s u i data)))))"
    unfolding fs using upd same only q f o m dist by blast
qed

theorem update_driver_frame_witness:
  "map d_vehicle_id (drivers (fst (update_driver sample_store sample_admin 1 sample_driver_json))) =
     [''MH15-TR-1234''] \<and>
   map d_driver_id (drivers (fst (update_driver sample_store sample_admin 1 sample_driver_json))) =
     [1] \<and>
   distinct (map d_vehicle_id
     (drivers (fst (update_driver sample_store sample_admin 1 sample_driver_json)))) \<and>
   users (fst (update_driver sample_store sample_admin 1 sample_driver_json)) =
     users sample_store"
  using update_driver_frame [where s = sample_store and i = 1 and d = sample_driver
      and u = sample_admin and data = sample_driver_json] sample_driver_found
  by (simp add: sample_store_def sample_driver_def)

end
